theory Spec2Isabelle
  imports Complex_Main
begin

section \<open>Python values and exceptions\<close>

text \<open>
  The exceptions that the modelled functions of \<^verbatim>\<open>geofencingapp.py\<close> can raise.
  A function that can raise returns \<open>error + 'a\<close>, with \<open>Inl\<close> for the exception.
\<close>

datatype error =
    AttributeError
  | TypeError
  | ValueError
  | OverflowError
  | JSONDecodeError
  | PermissionError

text \<open>
  The values that \<^verbatim>\<open>json.load\<close> returns and \<^verbatim>\<open>json.dump\<close> accepts. Python's
  \<^verbatim>\<open>None\<close> is \<open>JNull\<close>. A number is the real number that the \<^verbatim>\<open>float\<close> or the
  \<^verbatim>\<open>int\<close> denotes: an \<^verbatim>\<open>int\<close> and the \<^verbatim>\<open>float\<close> of the same value are one number,
  as they are for Python's arithmetic and comparisons. A dict keeps its insertion order,
  so it is an association list.
\<close>

datatype json =
    JNull
  | JBool bool
  | JNum real
  | JStr string
  | JArr "json list"
  | JObj "(string \<times> json) list"

text \<open>\<^verbatim>\<open>d.get(key)\<close>: only a dict has the method; a missing key gives \<^verbatim>\<open>None\<close>.\<close>

fun py_get :: "json \<Rightarrow> string \<Rightarrow> error + json" where
  "py_get (JObj kvs) key = (case map_of kvs key of None \<Rightarrow> Inr JNull | Some v \<Rightarrow> Inr v)"
| "py_get _ key = Inl AttributeError"

text \<open>
  The operand of a float subtraction such as \<^verbatim>\<open>lat2 - lat1\<close>: a number is itself, a
  \<^verbatim>\<open>bool\<close> is 0 or 1, anything else raises \<^verbatim>\<open>TypeError\<close>.
\<close>

fun py_number :: "json \<Rightarrow> error + real" where
  "py_number (JNum x) = Inr x"
| "py_number (JBool b) = Inr (if b then 1 else 0)"
| "py_number _ = Inl TypeError"

section \<open>Constants\<close>

definition CACHE_FILE :: string where
  "CACHE_FILE = ''mosque_data.json''"

definition CACHE_RADIUS :: real where
  "CACHE_RADIUS = 30000"

definition UPDATE_DISTANCE :: real where
  "UPDATE_DISTANCE = 20000"

definition PRAYER_BUFFER_MINUTES :: int where
  "PRAYER_BUFFER_MINUTES = 5"

definition SILENCE_DURATION :: int where
  "SILENCE_DURATION = 30"

section \<open>Distance: \<^verbatim>\<open>haversine\<close>\<close>

text \<open>
  Python computes with floats. A finite float is a real number, and each operation of
  the floats returns a float near the exact result, not the exact result itself. The
  operations that \<^verbatim>\<open>haversine\<close> uses are therefore an argument of the model: an
  \<open>arithmetic\<close> gives, for \<^verbatim>\<open>+\<close>, \<^verbatim>\<open>-\<close>, \<^verbatim>\<open>*\<close>, \<^verbatim>\<open>/\<close>, \<^verbatim>\<open>x ** 2\<close> and for
  \<^verbatim>\<open>math.radians\<close>, \<^verbatim>\<open>math.sin\<close>, \<^verbatim>\<open>math.cos\<close>, \<^verbatim>\<open>math.sqrt\<close> and \<^verbatim>\<open>math.atan2\<close>, the
  number that the operation returns. The floats of the machine are one arithmetic: an
  operation rounds what it is given to floats, computes, and rounds the result; where
  the operation of Python overflows or raises (\<^verbatim>\<open>haversine\<close> divides by 2 only and
  takes the square root of numbers that are not negative only), its value in the
  arithmetic is left open. Exact real arithmetic is another arithmetic. Comparisons of
  floats are exact.
\<close>

record arithmetic =
  fl_add :: "real \<Rightarrow> real \<Rightarrow> real"
  fl_sub :: "real \<Rightarrow> real \<Rightarrow> real"
  fl_mul :: "real \<Rightarrow> real \<Rightarrow> real"
  fl_div :: "real \<Rightarrow> real \<Rightarrow> real"
  fl_pow2 :: "real \<Rightarrow> real"
  fl_radians :: "real \<Rightarrow> real"
  fl_sin :: "real \<Rightarrow> real"
  fl_cos :: "real \<Rightarrow> real"
  fl_sqrt :: "real \<Rightarrow> real"
  fl_atan2 :: "real \<Rightarrow> real \<Rightarrow> real"

text \<open>\<^verbatim>\<open>math.sqrt\<close>: a negative argument raises.\<close>

definition py_sqrt :: "arithmetic \<Rightarrow> real \<Rightarrow> error + real" where
  "py_sqrt fl x = (if x < 0 then Inl ValueError else Inr (fl_sqrt fl x))"

text \<open>The term \<^verbatim>\<open>a\<close> of the source, named so that it can be bounded on its own.\<close>

definition haversine_a :: "arithmetic \<Rightarrow> real \<Rightarrow> real \<Rightarrow> real \<Rightarrow> real \<Rightarrow> real" where
  "haversine_a fl lat1 lon1 lat2 lon2 =
     (let dlat = fl_radians fl (fl_sub fl lat2 lat1);
          dlon = fl_radians fl (fl_sub fl lon2 lon1)
      in fl_add fl
           (fl_pow2 fl (fl_sin fl (fl_div fl dlat 2)))
           (fl_mul fl
              (fl_mul fl (fl_cos fl (fl_radians fl lat1)) (fl_cos fl (fl_radians fl lat2)))
              (fl_pow2 fl (fl_sin fl (fl_div fl dlon 2)))))"

definition haversine :: "arithmetic \<Rightarrow> real \<Rightarrow> real \<Rightarrow> real \<Rightarrow> real \<Rightarrow> error + real" where
  "haversine fl lat1 lon1 lat2 lon2 =
     (let R = 6371;
          a = haversine_a fl lat1 lon1 lat2 lon2
      in case py_sqrt fl a of
           Inl e \<Rightarrow> Inl e
         | Inr sa \<Rightarrow>
             (case py_sqrt fl (fl_sub fl 1 a) of
                Inl e \<Rightarrow> Inl e
              | Inr sb \<Rightarrow>
                  (let c = fl_mul fl 2 (fl_atan2 fl sa sb);
                       distance = fl_mul fl R c
                   in Inr (fl_mul fl distance 1000))))"

subsection \<open>Exact arithmetic\<close>

text \<open>The exact \<^verbatim>\<open>math.radians\<close> and \<^verbatim>\<open>math.atan2\<close>, and the arithmetic of the exact results.\<close>

definition radians :: "real \<Rightarrow> real" where
  "radians x = x * pi / 180"

definition atan2 :: "real \<Rightarrow> real \<Rightarrow> real" where
  "atan2 y x =
     (if 0 < x then arctan (y / x)
      else if x < 0 then (if 0 \<le> y then arctan (y / x) + pi else arctan (y / x) - pi)
      else if 0 < y then pi / 2
      else if y < 0 then - (pi / 2)
      else 0)"

definition real_arithmetic :: arithmetic where
  "real_arithmetic =
     \<lparr>fl_add = (\<lambda>x y. x + y), fl_sub = (\<lambda>x y. x - y), fl_mul = (\<lambda>x y. x * y),
      fl_div = (\<lambda>x y. x / y), fl_pow2 = (\<lambda>x. x\<^sup>2), fl_radians = radians,
      fl_sin = sin, fl_cos = cos, fl_sqrt = sqrt, fl_atan2 = atan2\<rparr>"

subsection \<open>What the floats keep of exact arithmetic\<close>


text \<open>Results that are floats themselves are not rounded: the zeros and ones met at a distance of 0.\<close>

definition exact_at_zero :: "arithmetic \<Rightarrow> bool" where
  "exact_at_zero fl =
     ((\<forall>x. fl_sub fl x x = 0)
      \<and> fl_radians fl 0 = 0
      \<and> fl_div fl 0 2 = 0
      \<and> fl_sin fl 0 = 0
      \<and> fl_pow2 fl 0 = 0
      \<and> (\<forall>x. fl_mul fl x 0 = 0)
      \<and> (\<forall>x. fl_mul fl 0 x = 0)
      \<and> fl_add fl 0 0 = 0
      \<and> fl_sqrt fl 0 = 0
      \<and> fl_sub fl 1 0 = 1
      \<and> fl_sqrt fl 1 = 1
      \<and> fl_atan2 fl 0 1 = 0)"


subsection \<open>An arithmetic that rounds a sum upwards\<close>


section \<open>Calendar dates\<close>

text \<open>
  A \<^verbatim>\<open>datetime.date\<close>: year, month and day, compared in that order.
\<close>

datatype date = Date (year: nat) (month: nat) (day: nat)

definition date_gt :: "date \<Rightarrow> date \<Rightarrow> bool" where
  "date_gt d1 d2 =
     (year d2 < year d1
      \<or> (year d1 = year d2 \<and> (month d2 < month d1
          \<or> (month d1 = month d2 \<and> day d2 < day d1))))"

definition is_leap :: "nat \<Rightarrow> bool" where
  "is_leap y = (if y mod 400 = 0 then True else if y mod 100 = 0 then False else y mod 4 = 0)"

definition days_in_month :: "nat \<Rightarrow> nat \<Rightarrow> nat" where
  "days_in_month y m =
     (if m = 2 then (if is_leap y then 29 else 28)
      else if m = 4 \<or> m = 6 \<or> m = 9 \<or> m = 11 then 30
      else 31)"

text \<open>The dates that \<^verbatim>\<open>datetime.date\<close> can hold.\<close>

definition valid_date :: "date \<Rightarrow> bool" where
  "valid_date d =
     (1 \<le> year d \<and> year d \<le> 9999 \<and> 1 \<le> month d \<and> month d \<le> 12
      \<and> 1 \<le> day d \<and> day d \<le> days_in_month (year d) (month d))"

subsection \<open>\<^verbatim>\<open>str(date)\<close>\<close>

definition digit_char :: "nat \<Rightarrow> char" where
  "digit_char n = ''0123456789'' ! (n mod 10)"

definition date_str :: "date \<Rightarrow> string" where
  "date_str d =
     [digit_char (year d div 1000), digit_char (year d div 100),
      digit_char (year d div 10), digit_char (year d), CHR ''-'',
      digit_char (month d div 10), digit_char (month d), CHR ''-'',
      digit_char (day d div 10), digit_char (day d)]"

subsection \<open>\<^verbatim>\<open>datetime.strptime(s, '%Y-%m-%d').date()\<close>\<close>

text \<open>
  The format becomes the regular expression
  \<^verbatim>\<open>(\d\d\d\d)-(1[0-2]|0[1-9]|[1-9])-(3[01]|[12]\d|0[1-9]|[1-9]| [1-9])\<close>,
  matched at the start of the string; text left over after the match, a string that
  does not match, and a day the month does not have all raise \<^verbatim>\<open>ValueError\<close>.
  Strings are byte strings here, in which the only decimal digits are the ASCII ones.
\<close>

definition is_digit :: "char \<Rightarrow> bool" where
  "is_digit c = (48 \<le> (of_char c :: nat) \<and> (of_char c :: nat) \<le> 57)"

definition digit_val :: "char \<Rightarrow> nat" where
  "digit_val c = of_char c - 48"

definition is_digit19 :: "char \<Rightarrow> bool" where
  "is_digit19 c = (is_digit c \<and> c \<noteq> CHR ''0'')"

fun match_year :: "string \<Rightarrow> (nat \<times> string) option" where
  "match_year (a # b # c # d # rest) =
     (if is_digit a \<and> is_digit b \<and> is_digit c \<and> is_digit d
      then Some (1000 * digit_val a + 100 * digit_val b + 10 * digit_val c + digit_val d, rest)
      else None)"
| "match_year _ = None"

fun match_dash :: "string \<Rightarrow> string option" where
  "match_dash (c # rest) = (if c = CHR ''-'' then Some rest else None)"
| "match_dash [] = None"

text \<open>
  The month is followed by a dash in the pattern, so an alternative matches only when
  a dash comes next; the alternatives are tried in the order of the pattern.
\<close>

fun match_month :: "string \<Rightarrow> (nat \<times> string) option" where
  "match_month (a # b # c # rest) =
     (if a = CHR ''1'' \<and> (b = CHR ''0'' \<or> b = CHR ''1'' \<or> b = CHR ''2'') \<and> c = CHR ''-''
      then Some (10 + digit_val b, rest)
      else if a = CHR ''0'' \<and> is_digit19 b \<and> c = CHR ''-''
      then Some (digit_val b, rest)
      else if is_digit19 a \<and> b = CHR ''-''
      then Some (digit_val a, c # rest)
      else None)"
| "match_month [a, b] = (if is_digit19 a \<and> b = CHR ''-'' then Some (digit_val a, []) else None)"
| "match_month _ = None"

text \<open>The day ends the pattern: the first alternative that matches is taken.\<close>

fun match_day :: "string \<Rightarrow> (nat \<times> string) option" where
  "match_day (a # b # rest) =
     (if a = CHR ''3'' \<and> (b = CHR ''0'' \<or> b = CHR ''1'') then Some (30 + digit_val b, rest)
      else if (a = CHR ''1'' \<or> a = CHR ''2'') \<and> is_digit b
      then Some (10 * digit_val a + digit_val b, rest)
      else if a = CHR ''0'' \<and> is_digit19 b then Some (digit_val b, rest)
      else if is_digit19 a then Some (digit_val a, b # rest)
      else if a = CHR '' '' \<and> is_digit19 b then Some (digit_val b, rest)
      else None)"
| "match_day [a] = (if is_digit19 a then Some (digit_val a, []) else None)"
| "match_day [] = None"

definition strptime_date :: "string \<Rightarrow> error + date" where
  "strptime_date s =
     (case match_year s of
        None \<Rightarrow> Inl ValueError
      | Some (y, s1) \<Rightarrow>
          (case match_dash s1 of
             None \<Rightarrow> Inl ValueError
           | Some s2 \<Rightarrow>
               (case match_month s2 of
                  None \<Rightarrow> Inl ValueError
                | Some (m, s3) \<Rightarrow>
                    (case match_day s3 of
                       None \<Rightarrow> Inl ValueError
                     | Some (d, s4) \<Rightarrow>
                         if s4 \<noteq> [] then Inl ValueError
                         else if valid_date (Date y m d) then Inr (Date y m d)
                         else Inl ValueError))))"

text \<open>The first argument of \<^verbatim>\<open>strptime\<close> must be a \<^verbatim>\<open>str\<close>.\<close>

fun strptime_json :: "json \<Rightarrow> error + date" where
  "strptime_json (JStr s) = strptime_date s"
| "strptime_json _ = Inl TypeError"

section \<open>The cache store\<close>

text \<open>
  The file system maps a path to a file. What matters of a file's text is what
  \<^verbatim>\<open>json.load\<close> makes of it: \<open>Json_text v\<close> is the text \<^verbatim>\<open>json.dump\<close> writes for the
  value \<open>v\<close>, which \<^verbatim>\<open>json.load\<close> decodes to \<open>v\<close> again (the contract of Python's
  \<^verbatim>\<open>json\<close> module for these values); \<open>Malformed_text\<close> is any text that
  \<^verbatim>\<open>json.load\<close> rejects; \<open>Unreadable\<close> is a file that exists and that \<^verbatim>\<open>open\<close> may
  not read.
\<close>

datatype stored_file = Json_text json | Malformed_text | Unreadable

type_synonym filesystem = "string \<rightharpoonup> stored_file"

text \<open>
  \<^verbatim>\<open>cache_mosque_data\<close> reads the clock (\<^verbatim>\<open>datetime.now().date()\<close>, here \<open>today\<close>) and
  replaces the file. The write itself is taken to succeed.
\<close>

definition cache_data_of :: "date \<Rightarrow> json \<Rightarrow> real \<Rightarrow> real \<Rightarrow> json" where
  "cache_data_of today mosques lat lon =
     JObj [(''mosques'', mosques),
           (''last_lat'', JNum lat),
           (''last_lon'', JNum lon),
           (''last_update'', JStr (date_str today))]"

definition cache_mosque_data :: "date \<Rightarrow> json \<Rightarrow> real \<Rightarrow> real \<Rightarrow> filesystem \<Rightarrow> filesystem" where
  "cache_mosque_data today mosques lat lon fs =
     (let cache_data = cache_data_of today mosques lat lon
      in fs(CACHE_FILE \<mapsto> Json_text cache_data))"

definition load_cached_mosque_data :: "filesystem \<Rightarrow> error + json" where
  "load_cached_mosque_data fs =
     (case fs CACHE_FILE of
        Some f \<Rightarrow>
          (case f of
             Unreadable \<Rightarrow> Inl PermissionError
           | Malformed_text \<Rightarrow> Inl JSONDecodeError
           | Json_text v \<Rightarrow> Inr v)
      | None \<Rightarrow> Inr JNull)"

section \<open>The freshness check: \<^verbatim>\<open>should_update_cache\<close>\<close>

text \<open>
  \<^verbatim>\<open>haversine\<close> applied to the current position and to the two values read from the
  cache: the subtractions \<^verbatim>\<open>lat2 - lat1\<close> and \<^verbatim>\<open>lon2 - lon1\<close> come first and raise
  \<^verbatim>\<open>TypeError\<close> on a value that is not a number.
\<close>

definition haversine_cached ::
  "arithmetic \<Rightarrow> real \<Rightarrow> real \<Rightarrow> json \<Rightarrow> json \<Rightarrow> error + real" where
  "haversine_cached fl lat1 lon1 last_lat last_lon =
     (case py_number last_lat of
        Inl e \<Rightarrow> Inl e
      | Inr lat2 \<Rightarrow>
          (case py_number last_lon of
             Inl e \<Rightarrow> Inl e
           | Inr lon2 \<Rightarrow> haversine fl lat1 lon1 lat2 lon2))"

text \<open>
  \<open>today\<close> is what \<^verbatim>\<open>datetime.now().date()\<close> returns; \<open>fl\<close> is the arithmetic of the
  distance.
\<close>

definition should_update_cache ::
  "arithmetic \<Rightarrow> date \<Rightarrow> real \<Rightarrow> real \<Rightarrow> json \<Rightarrow> error + bool" where
  "should_update_cache fl today current_lat current_lon cached_data =
     (case py_get cached_data ''last_lat'' of
        Inl e \<Rightarrow> Inl e
      | Inr last_lat \<Rightarrow>
     (case py_get cached_data ''last_lon'' of
        Inl e \<Rightarrow> Inl e
      | Inr last_lon \<Rightarrow>
     (case py_get cached_data ''last_update'' of
        Inl e \<Rightarrow> Inl e
      | Inr last_update \<Rightarrow>
     (case haversine_cached fl current_lat current_lon last_lat last_lon of
        Inl e \<Rightarrow> Inl e
      | Inr distance \<Rightarrow>
          if distance > UPDATE_DISTANCE then Inr True
          else
            (case strptime_json last_update of
               Inl e \<Rightarrow> Inl e
             | Inr last_date \<Rightarrow>
                 if date_gt today last_date then Inr True
                 else Inr False)))))"

section \<open>Prayer times\<close>

text \<open>
  A \<^verbatim>\<open>datetime\<close> with whole minutes is the number of minutes since 1900-01-01 00:00,
  the day that \<^verbatim>\<open>strptime(s, "%H:%M")\<close> gives to a time of day. \<^verbatim>\<open>datetime\<close> reaches
  from 0001-01-01 00:00 to 9999-12-31 23:59, and arithmetic that leaves this range raises
  \<^verbatim>\<open>OverflowError\<close>.
\<close>

type_synonym datetime = int

definition datetime_hm :: "nat \<Rightarrow> nat \<Rightarrow> datetime" where
  "datetime_hm h m = 60 * int h + int m"

definition day_of :: "datetime \<Rightarrow> int" where
  "day_of t = t div 1440"

definition time_of_day :: "datetime \<Rightarrow> int" where
  "time_of_day t = t mod 1440"

definition DATETIME_MIN :: datetime where
  "DATETIME_MIN = - (693595 * 1440)"

definition DATETIME_MAX :: datetime where
  "DATETIME_MAX = 2958463 * 1440 + 1439"

text \<open>\<^verbatim>\<open>time - timedelta(minutes=n)\<close>\<close>

definition datetime_sub_minutes :: "datetime \<Rightarrow> int \<Rightarrow> error + datetime" where
  "datetime_sub_minutes t n =
     (if t - n < DATETIME_MIN \<or> DATETIME_MAX < t - n then Inl OverflowError
      else Inr (t - n))"

text \<open>
  The dict of prayer times keeps its insertion order: an association list with distinct
  keys. \<^verbatim>\<open>schedule_prayer_alarms\<close> prints one line for each entry, naming the prayer and
  its alarm time; the lines printed are the function's output here, as pairs. The lead
  is the module constant \<open>PRAYER_BUFFER_MINUTES\<close>, read at each call; the loop takes its
  value as an argument.
\<close>

type_synonym schedule = "(string \<times> datetime) list"

fun alarm_loop :: "int \<Rightarrow> schedule \<Rightarrow> schedule \<Rightarrow> error + schedule" where
  "alarm_loop lead [] printed = Inr printed"
| "alarm_loop lead ((prayer, time) # rest) printed =
     (case datetime_sub_minutes time lead of
        Inl e \<Rightarrow> Inl e
      | Inr alarm_time \<Rightarrow> alarm_loop lead rest (printed @ [(prayer, alarm_time)]))"

definition schedule_prayer_alarms :: "schedule \<Rightarrow> error + schedule" where
  "schedule_prayer_alarms prayer_times = alarm_loop PRAYER_BUFFER_MINUTES prayer_times []"

text \<open>
  \<^verbatim>\<open>min(prayer_times, key=lambda p: prayer_times[p])\<close>: the first key, in the order of
  the dict, whose time is the least; an empty dict raises \<^verbatim>\<open>ValueError\<close>.
\<close>

fun min_key :: "string \<times> datetime \<Rightarrow> schedule \<Rightarrow> string" where
  "min_key best [] = fst best"
| "min_key best (kv # rest) =
     (if snd kv < snd best then min_key kv rest else min_key best rest)"

definition next_prayer :: "schedule \<Rightarrow> error + string" where
  "next_prayer prayer_times =
     (case prayer_times of
        [] \<Rightarrow> Inl ValueError
      | kv # rest \<Rightarrow> Inr (min_key kv rest))"

text \<open>
  The rule of the specification for the next event, for comparison with \<open>next_prayer\<close>:
  the entry with the least time after \<open>now\<close> if there is one, else the entry with the
  least time of all.
\<close>

definition next_event_spec :: "datetime \<Rightarrow> schedule \<Rightarrow> error + string" where
  "next_event_spec now prayer_times =
     (case filter (\<lambda>kv. now < snd kv) prayer_times of
        [] \<Rightarrow> next_prayer prayer_times
      | kv # rest \<Rightarrow> Inr (min_key kv rest))"

section \<open>Properties of the distance\<close>











lemma real_arithmetic_exact_at_zero: "exact_at_zero real_arithmetic"
  by (simp add: exact_at_zero_def real_arithmetic_def radians_def atan2_def)





lemma haversine_same:
  assumes "exact_at_zero fl"
  shows "haversine fl lat lon lat lon = Inr 0"
  using assms
  by (simp add: exact_at_zero_def haversine_def haversine_a_def py_sqrt_def Let_def)




subsection \<open>Numerical bounds\<close>

























section \<open>Properties of dates\<close>

text \<open>
  A date that \<^verbatim>\<open>str\<close> has written is read back by \<^verbatim>\<open>strptime\<close> with the format
  \<^verbatim>\<open>%Y-%m-%d\<close>: the date that \<open>cache_mosque_data\<close> stores is the date that
  \<open>should_update_cache\<close> compares with today.
\<close>

lemma nat_below_10:
  "(k::nat) < 10 \<Longrightarrow> k = 0 \<or> k = 1 \<or> k = 2 \<or> k = 3 \<or> k = 4 \<or> k = 5 \<or> k = 6 \<or> k = 7 \<or> k = 8 \<or> k = 9"
  by arith

lemma digit_nth_facts:
  assumes "k < 10"
  shows "is_digit (''0123456789'' ! k)" and "digit_val (''0123456789'' ! k) = k"
    and "''0123456789'' ! k = CHR ''0'' \<longleftrightarrow> k = 0"
  using nat_below_10 [OF assms] by (auto simp: is_digit_def digit_val_def)

lemma digit_char_facts:
  "is_digit (digit_char n)" "digit_val (digit_char n) = n mod 10"
  "digit_char n = CHR ''0'' \<longleftrightarrow> n mod 10 = 0"
  unfolding digit_char_def by (simp_all add: digit_nth_facts)


lemma year_digits:
  assumes "y < (10000::nat)"
  shows "1000 * (y div 1000) + 100 * (y div 100 mod 10) + 10 * (y div 10 mod 10) + y mod 10 = y"
    and "y div 1000 mod 10 = y div 1000"
proof -
  define A B C D where "A = y div 1000" and "B = y div 100 mod 10"
    and "C = y div 10 mod 10" and "D = y mod 10"
  define P Q where "P = y div 10" and "Q = y div 100"
  have q: "y div 100 = y div 10 div 10" "y div 1000 = y div 100 div 10"
    by (simp_all add: div_mult2_eq [symmetric])
  have e1: "y = 10 * P + D"
    unfolding P_def D_def by simp
  have e2: "P = 10 * Q + C"
    unfolding P_def Q_def C_def q by simp
  have e3: "Q = 10 * A + B"
    unfolding Q_def A_def B_def q by simp
  have "1000 * A + 100 * B + 10 * C + D = y"
    using e1 e2 e3 by linarith
  then show "1000 * (y div 1000) + 100 * (y div 100 mod 10) + 10 * (y div 10 mod 10) + y mod 10 = y"
    unfolding A_def B_def C_def D_def .
  have "y div 1000 < 10"
    using assms by (intro less_mult_imp_div_less) simp
  then show "y div 1000 mod 10 = y div 1000" by simp
qed

lemma match_year_str:
  assumes "y < 10000"
  shows "match_year (digit_char (y div 1000) # digit_char (y div 100) # digit_char (y div 10)
           # digit_char y # rest) = Some (y, rest)"
  using year_digits [OF assms] by (simp add: digit_char_facts)

lemma match_month_all:
  "\<forall>m \<in> set [1..<13].
     match_month (digit_char (m div 10) # digit_char m # CHR ''-'' # rest) = Some (m, rest)"
  by code_simp

lemma match_day_all:
  "\<forall>d \<in> set [1..<32]. match_day [digit_char (d div 10), digit_char d] = Some (d, [])"
  by code_simp

lemma strptime_date_str:
  assumes "valid_date d"
  shows "strptime_date (date_str d) = Inr d"
proof (cases d)
  case (Date y m dd)
  with assms have v: "1 \<le> y" "y \<le> 9999" "1 \<le> m" "m \<le> 12" "1 \<le> dd"
      "dd \<le> days_in_month y m"
    by (simp_all add: valid_date_def)
  have "days_in_month y m \<le> 31" by (simp add: days_in_month_def)
  with v have d31: "dd \<le> 31" by linarith
  have y: "match_year (digit_char (y div 1000) # digit_char (y div 100) # digit_char (y div 10)
           # digit_char y # rest) = Some (y, rest)" for rest
    using v by (intro match_year_str) simp
  have "m \<in> set [1..<13]" using v by simp
  then have m: "match_month (digit_char (m div 10) # digit_char m # CHR ''-'' # rest)
      = Some (m, rest)" for rest
    using match_month_all by blast
  have "dd \<in> set [1..<32]" using v d31 by simp
  then have dd: "match_day [digit_char (dd div 10), digit_char dd] = Some (dd, [])"
    using match_day_all by blast
  have vd: "valid_date (Date y m dd)" using assms Date by simp
  show ?thesis
    unfolding Date strptime_date_def date_str_def date.sel
    by (simp only: y m dd match_dash.simps option.case prod.case if_True if_False vd
        not_True_eq_False refl simp_thms)
qed

section \<open>Properties of the cache store\<close>

text \<open>
  C9, as the claim states it, fails: a cache file whose text is not JSON makes
  \<open>load_cached_mosque_data\<close> raise \<^verbatim>\<open>JSONDecodeError\<close>; it does not return \<^verbatim>\<open>None\<close>.
\<close>

theorem load_corrupt_counterexample:
  "load_cached_mosque_data [CACHE_FILE \<mapsto> Malformed_text] = Inl JSONDecodeError
   \<and> load_cached_mosque_data [CACHE_FILE \<mapsto> Malformed_text] \<noteq> Inr JNull"
  by (simp add: load_cached_mosque_data_def)

text \<open>
  C9, amended. \<open>load_cached_mosque_data\<close> returns \<^verbatim>\<open>None\<close> when there is no cache
  file and the decoded value when the file holds JSON text; a file that holds other text
  raises \<^verbatim>\<open>JSONDecodeError\<close> and a file that may not be read raises
  \<^verbatim>\<open>PermissionError\<close>: the function catches no exception.
\<close>

theorem load_cached_mosque_data_cases:
  "load_cached_mosque_data (fs(CACHE_FILE := None)) = Inr JNull
   \<and> load_cached_mosque_data (fs(CACHE_FILE \<mapsto> Json_text v)) = Inr v
   \<and> load_cached_mosque_data (fs(CACHE_FILE \<mapsto> Malformed_text)) = Inl JSONDecodeError
   \<and> load_cached_mosque_data (fs(CACHE_FILE \<mapsto> Unreadable)) = Inl PermissionError"
  by (simp add: load_cached_mosque_data_def)

text \<open>
  C10. Round trip: after \<open>cache_mosque_data\<close> has written the record for a list of
  mosques, a coordinate and the date of the day, whatever the file system held before,
  \<open>load_cached_mosque_data\<close> returns that record: the dict with the mosques, the
  coordinate and the date.
\<close>

theorem save_load_roundtrip:
  "load_cached_mosque_data (cache_mosque_data today mosques lat lon fs)
     = Inr (cache_data_of today mosques lat lon)
   \<and> py_get (cache_data_of today mosques lat lon) ''mosques'' = Inr mosques
   \<and> py_get (cache_data_of today mosques lat lon) ''last_lat'' = Inr (JNum lat)
   \<and> py_get (cache_data_of today mosques lat lon) ''last_lon'' = Inr (JNum lon)
   \<and> py_get (cache_data_of today mosques lat lon) ''last_update'' = Inr (JStr (date_str today))"
  by (simp add: load_cached_mosque_data_def cache_mosque_data_def cache_data_of_def)

section \<open>Properties of the freshness check\<close>

text \<open>
  C1, as the claim states it, fails: with no record, that is with the \<^verbatim>\<open>None\<close> that
  \<open>load_cached_mosque_data\<close> returns when there is no cache file,
  \<open>should_update_cache\<close> does not return \<^verbatim>\<open>True\<close>.
\<close>

theorem should_update_cache_absent_counterexample:
  "should_update_cache real_arithmetic (Date 2024 11 4) 24.7136 46.6753 JNull \<noteq> Inr True"
  by (simp add: should_update_cache_def)

text \<open>
  C1, amended. \<open>should_update_cache\<close> decides for a record that is present only:
  given \<^verbatim>\<open>None\<close> for the record it raises \<^verbatim>\<open>AttributeError\<close>, for every coordinate and
  date, and returns no verdict.
\<close>

theorem should_update_cache_absent_raises:
  "should_update_cache fl today current_lat current_lon JNull = Inl AttributeError"
  by (simp add: should_update_cache_def)

text \<open>
  A record that has just been written, read on the same day at the same coordinate,
  needs no refresh.
\<close>

lemma just_saved_is_fresh:
  assumes "valid_date today" and "exact_at_zero fl"
  shows "should_update_cache fl today lat lon (cache_data_of today mosques lat lon) = Inr False"
  using assms(1)
  by (simp add: should_update_cache_def cache_data_of_def haversine_cached_def
      haversine_same [OF assms(2)] UPDATE_DISTANCE_def strptime_date_str date_gt_def)

lemma strptime_date_2024_11_04:
  "strptime_date (date_str (Date 2024 11 4)) = Inr (Date 2024 11 4)"
  by (simp add: strptime_date_def date_str_def digit_char_def is_digit_def is_digit19_def
      digit_val_def valid_date_def days_in_month_def is_leap_def)

text \<open>
  C3. For a record that is present, with numbers for \<^verbatim>\<open>last_lat\<close> and \<^verbatim>\<open>last_lon\<close> and
  a date string for \<^verbatim>\<open>last_update\<close>: when the distance from the current coordinate to
  the coordinate of the record is at most 20 000 m and today is not later than the date
  of the record (a date in the future included), \<open>should_update_cache\<close> returns
  \<^verbatim>\<open>False\<close>. The distance is the number that \<open>haversine\<close> returns, in whatever
  arithmetic.
\<close>

theorem should_update_cache_fresh:
  assumes "py_get cached_data ''last_lat'' = Inr (JNum last_lat)"
      and "py_get cached_data ''last_lon'' = Inr (JNum last_lon)"
      and "py_get cached_data ''last_update'' = Inr (JStr s)"
      and "strptime_date s = Inr last_date"
      and "haversine fl current_lat current_lon last_lat last_lon = Inr distance"
      and "distance \<le> 20000"
      and "\<not> date_gt today last_date"
  shows "should_update_cache fl today current_lat current_lon cached_data = Inr False"
  using assms
  by (simp add: should_update_cache_def haversine_cached_def UPDATE_DISTANCE_def)

theorem should_update_cache_fresh_witness:
  "should_update_cache real_arithmetic (Date 2024 11 3) 24.7136 46.6753
     (cache_data_of (Date 2024 11 4) (JArr []) 24.7136 46.6753) = Inr False
   \<and> should_update_cache real_arithmetic (Date 2024 11 4) 24.7136 46.6753
     (cache_data_of (Date 2024 11 4) (JArr []) 24.7136 46.6753) = Inr False"
proof -
  let ?rec = "cache_data_of (Date 2024 11 4) (JArr []) 24.7136 46.6753"
  have g: "py_get ?rec ''last_lat'' = Inr (JNum 24.7136)"
      "py_get ?rec ''last_lon'' = Inr (JNum 46.6753)"
      "py_get ?rec ''last_update'' = Inr (JStr (date_str (Date 2024 11 4)))"
    by (simp_all add: cache_data_of_def)
  have h: "haversine real_arithmetic 24.7136 46.6753 24.7136 46.6753 = Inr 0"
    by (rule haversine_same [OF real_arithmetic_exact_at_zero])
  have d: "(0::real) \<le> 20000" by simp
  have n1: "\<not> date_gt (Date 2024 11 3) (Date 2024 11 4)"
    and n2: "\<not> date_gt (Date 2024 11 4) (Date 2024 11 4)"
    by (simp_all add: date_gt_def)
  show ?thesis
    using should_update_cache_fresh [OF g strptime_date_2024_11_04 h d n1]
      should_update_cache_fresh [OF g strptime_date_2024_11_04 h d n2]
    by simp
qed






section \<open>Properties of the prayer schedule\<close>

text \<open>
  C2. The next prayer that the application displays is the entry with the least time
  of the whole schedule, whatever the time is now. At 10:00, with Fajr at 05:00 and Dhuhr
  at 12:15, the code names Fajr, which has passed; the rule of the specification names
  Dhuhr.
\<close>

theorem next_prayer_ignores_now:
  "next_prayer [(''Fajr'', datetime_hm 5 0), (''Dhuhr'', datetime_hm 12 15)] = Inr ''Fajr''
   \<and> next_event_spec (datetime_hm 10 0)
        [(''Fajr'', datetime_hm 5 0), (''Dhuhr'', datetime_hm 12 15)] = Inr ''Dhuhr''"
  by (simp add: next_prayer_def next_event_spec_def datetime_hm_def)

lemma alarm_loop_map:
  assumes "\<forall>(p, t) \<in> set prayer_times. DATETIME_MIN \<le> t - lead \<and> t - lead \<le> DATETIME_MAX"
  shows "alarm_loop lead prayer_times printed
       = Inr (printed @ map (\<lambda>(p, t). (p, t - lead)) prayer_times)"
  using assms
proof (induction prayer_times arbitrary: printed)
  case Nil
  then show ?case by simp
next
  case (Cons e rest)
  obtain p t where e: "e = (p, t)" by (cases e)
  from Cons.prems e have ok: "datetime_sub_minutes t lead = Inr (t - lead)"
    by (simp add: datetime_sub_minutes_def)
  from Cons.prems
  have "\<forall>(p, t) \<in> set rest. DATETIME_MIN \<le> t - lead \<and> t - lead \<le> DATETIME_MAX"
    by simp
  from Cons.IH [OF this] show ?case by (simp add: e ok)
qed

lemma labels_kept: "map fst (map (\<lambda>(p, t). (p, t - lead)) prayer_times) = map fst prayer_times"
  by (induction prayer_times) auto

lemma previous_day:
  fixes t lead :: int
  assumes "0 \<le> t" "t < lead" "lead \<le> 1440"
  shows "day_of (t - lead) = - 1 \<and> time_of_day (t - lead) = t + 1440 - lead"
proof -
  define r where "r = t + 1440 - lead"
  have r: "0 \<le> r" "r < 1440" using assms by (simp_all add: r_def)
  have e: "t - lead = r + (- 1) * 1440" by (simp add: r_def)
  have "(r + (- 1) * 1440) div 1440 = - 1 + r div 1440"
    by (rule div_mult_self1) simp
  moreover have "(r + (- 1) * 1440) mod 1440 = r mod 1440"
    by (rule mod_mult_self1)
  ultimately show ?thesis
    unfolding day_of_def time_of_day_def e using r by (simp add: r_def)
qed

text \<open>
  C8. For a schedule with distinct labels whose times are times of day (on 1900-01-01,
  as \<^verbatim>\<open>strptime(s, "%H:%M")\<close> gives them) and for every lead that \<^verbatim>\<open>datetime\<close> can
  subtract from them (up to 998 776 800 minutes, about 1899 years), the loop of
  \<open>schedule_prayer_alarms\<close> raises nothing and prints, for each entry in turn, the label
  with the time minus the lead, so that each label appears exactly once. A lead longer
  than the time of day, up to a day, gives a time on the day before (1899-12-31), at the
  time of day plus 24 hours minus the lead; a lead no longer than it gives a time on the
  same day. With the lead of the module, 5 minutes, Fajr at 05:00 and Dhuhr at 12:15 give
  Fajr at 04:55 and Dhuhr at 12:10. The function only reads the schedule.
\<close>

theorem schedule_prayer_alarms_triggers:
  assumes "distinct (map fst prayer_times)"
      and "\<forall>(p, t) \<in> set prayer_times. 0 \<le> t \<and> t < 1440"
      and "0 \<le> lead" and "lead \<le> 998776800"
  shows "alarm_loop lead prayer_times [] = Inr (map (\<lambda>(p, t). (p, t - lead)) prayer_times)
     \<and> schedule_prayer_alarms prayer_times
         = Inr (map (\<lambda>(p, t). (p, t - PRAYER_BUFFER_MINUTES)) prayer_times)
     \<and> map fst (map (\<lambda>(p, t). (p, t - lead)) prayer_times) = map fst prayer_times
     \<and> distinct (map fst (map (\<lambda>(p, t). (p, t - lead)) prayer_times))
     \<and> (\<forall>(p, t) \<in> set prayer_times. t < lead \<and> lead \<le> 1440 \<longrightarrow>
           day_of (t - lead) = - 1 \<and> time_of_day (t - lead) = t + 1440 - lead)
     \<and> (\<forall>(p, t) \<in> set prayer_times. lead \<le> t \<longrightarrow>
           day_of (t - lead) = 0 \<and> time_of_day (t - lead) = t - lead)
     \<and> schedule_prayer_alarms [(''Fajr'', datetime_hm 5 0), (''Dhuhr'', datetime_hm 12 15)]
         = Inr [(''Fajr'', datetime_hm 4 55), (''Dhuhr'', datetime_hm 12 10)]"
proof -
  have r: "\<forall>(p, t) \<in> set prayer_times. DATETIME_MIN \<le> t - lead \<and> t - lead \<le> DATETIME_MAX"
    using assms(2-4) by (auto simp: DATETIME_MIN_def DATETIME_MAX_def)
  have r5: "\<forall>(p, t) \<in> set prayer_times.
      DATETIME_MIN \<le> t - PRAYER_BUFFER_MINUTES \<and> t - PRAYER_BUFFER_MINUTES \<le> DATETIME_MAX"
    using assms(2) by (auto simp: DATETIME_MIN_def DATETIME_MAX_def PRAYER_BUFFER_MINUTES_def)
  have l: "alarm_loop lead prayer_times [] = Inr (map (\<lambda>(p, t). (p, t - lead)) prayer_times)"
    using alarm_loop_map [OF r, of "[]"] by simp
  have l5: "schedule_prayer_alarms prayer_times
         = Inr (map (\<lambda>(p, t). (p, t - PRAYER_BUFFER_MINUTES)) prayer_times)"
    unfolding schedule_prayer_alarms_def using alarm_loop_map [OF r5, of "[]"] by simp
  have d: "distinct (map fst (map (\<lambda>(p, t). (p, t - lead)) prayer_times))"
    unfolding labels_kept by (rule assms(1))
  have w: "\<forall>(p, t) \<in> set prayer_times. t < lead \<and> lead \<le> 1440 \<longrightarrow>
           day_of (t - lead) = - 1 \<and> time_of_day (t - lead) = t + 1440 - lead"
    using assms(2) previous_day by fastforce
  have s: "\<forall>(p, t) \<in> set prayer_times. lead \<le> t \<longrightarrow>
           day_of (t - lead) = 0 \<and> time_of_day (t - lead) = t - lead"
  proof (clarify)
    fix p t assume "(p, t) \<in> set prayer_times" "lead \<le> t"
    with assms(2,3) have b: "0 \<le> t - lead" "t - lead < 1440" by auto
    show "day_of (t - lead) = 0 \<and> time_of_day (t - lead) = t - lead"
      unfolding day_of_def time_of_day_def using b by simp
  qed
  have x: "schedule_prayer_alarms [(''Fajr'', datetime_hm 5 0), (''Dhuhr'', datetime_hm 12 15)]
         = Inr [(''Fajr'', datetime_hm 4 55), (''Dhuhr'', datetime_hm 12 10)]"
    by (simp add: schedule_prayer_alarms_def PRAYER_BUFFER_MINUTES_def datetime_sub_minutes_def
        DATETIME_MIN_def DATETIME_MAX_def datetime_hm_def)
  show ?thesis by (intro conjI l l5 labels_kept d w s x)
qed

theorem schedule_prayer_alarms_triggers_witness:
  "schedule_prayer_alarms
     [(''Fajr'', datetime_hm 5 0), (''Dhuhr'', datetime_hm 12 15), (''Midnight'', datetime_hm 0 3)]
     = Inr [(''Fajr'', datetime_hm 4 55), (''Dhuhr'', datetime_hm 12 10),
            (''Midnight'', datetime_hm 0 3 - 5)]
   \<and> day_of (datetime_hm 0 3 - 5) = - 1
   \<and> time_of_day (datetime_hm 0 3 - 5) = datetime_hm 23 58"
proof -
  let ?s = "[(''Fajr'', datetime_hm 5 0), (''Dhuhr'', datetime_hm 12 15),
             (''Midnight'', datetime_hm 0 3)]"
  have a: "distinct (map fst ?s)" by simp
  have b: "\<forall>(p, t) \<in> set ?s. 0 \<le> t \<and> t < 1440" by (simp add: datetime_hm_def)
  have c: "(0::int) \<le> 5" "(5::int) \<le> 998776800" by simp_all
  show ?thesis
    using schedule_prayer_alarms_triggers [OF a b c]
    by (simp add: PRAYER_BUFFER_MINUTES_def datetime_hm_def)
qed

end
